theory Spec2Isabelle
  imports Complex_Main "HOL-Library.AList"
begin

section \<open>Conventions of the embedding\<close>

text \<open>
  The repository is Python. Its \<open>float\<close> values are embedded as \<^typ>\<open>real\<close>: every
  arithmetic step is exact, so the development speaks about the formulas of the code and
  not about binary rounding. Integers that count things (\<open>len\<close>, regex hits) are
  \<^typ>\<open>nat\<close>. Every exception the modelled code can raise is a value of \<open>py_error\<close>,
  and a function that can raise returns \<open>py_error + 'a\<close> with \<open>Inl\<close> for the exception.
  A Python \<open>dict\<close> is an association list in insertion order with
  \<^const>\<open>AList.update\<close> as item assignment, which keeps the position of a key that is
  already present, as Python does.
\<close>

datatype py_error = ZeroDivisionError | ValueError | StatisticsError

text \<open>Python's true division \<open>a / b\<close> on floats raises when the divisor is zero.\<close>

definition py_div :: "real \<Rightarrow> real \<Rightarrow> py_error + real" where
  "py_div a b = (if b = 0 then Inl ZeroDivisionError else Inr (a / b))"

subsection \<open>The parts of the \<open>statistics\<close> module and the builtins that the code calls\<close>

text \<open>
  \<open>statistics.mean\<close> raises \<open>StatisticsError\<close> on an empty sequence,
  \<open>statistics.stdev\<close> (the sample standard deviation, divisor \<open>n - 1\<close>) raises it on
  fewer than two values, and \<open>min\<close>/\<open>max\<close> raise \<open>ValueError\<close> on an empty sequence.
  The square root is the one of the reals; it is the only operation of the development
  that does not compute, and concrete deviations are compared through their squares.
\<close>

definition mean_val :: "real list \<Rightarrow> real" where
  "mean_val xs = sum_list xs / real (length xs)"

definition sq_dev :: "real list \<Rightarrow> real" where
  "sq_dev xs = sum_list (map (\<lambda>x. (x - mean_val xs)\<^sup>2) xs)"

definition stdev_val :: "real list \<Rightarrow> real" where
  "stdev_val xs = sqrt (sq_dev xs / (real (length xs) - 1))"

definition py_mean :: "real list \<Rightarrow> py_error + real" where
  "py_mean xs = (if xs = [] then Inl StatisticsError else Inr (mean_val xs))"

definition py_stdev :: "real list \<Rightarrow> py_error + real" where
  "py_stdev xs = (if length xs < 2 then Inl StatisticsError else Inr (stdev_val xs))"

fun py_min :: "real list \<Rightarrow> py_error + real" where
  "py_min [] = Inl ValueError"
| "py_min (x # xs) = Inr (fold min xs x)"

fun py_max :: "real list \<Rightarrow> py_error + real" where
  "py_max [] = Inl ValueError"
| "py_max (x # xs) = Inr (fold max xs x)"

section \<open>Cultural lenses (\<open>team_coherence/lenses\<close>)\<close>

record LensParameters =
  psi_weight :: real
  rho_weight :: real
  q_weight :: real
  f_weight :: real
  tau_weight :: real
  q_baseline :: real
  f_baseline :: real
  psi_tolerance :: real
  verbal_expression :: real
  direct_communication :: real
  collective_orientation :: real
  km :: real
  ki :: real

text \<open>The defaults of the dataclass \<open>LensParameters\<close>.\<close>

definition default_parameters :: LensParameters where
  "default_parameters =
     \<lparr>psi_weight = 1, rho_weight = 1, q_weight = 1, f_weight = 1, tau_weight = 1,
      q_baseline = 0.5, f_baseline = 0.5, psi_tolerance = 0.3,
      verbal_expression = 0.5, direct_communication = 0.5, collective_orientation = 0.5,
      km = 0.3, ki = 2\<rparr>"

text \<open>
  A note is free text; two of the notes of \<open>interpret\<close> are f-strings that print \<open>q\<close> with
  two decimals. The printed digits are not modelled: \<open>NoteQ pre q post\<close> stands for the
  f-string with prefix \<open>pre\<close>, the value \<open>q\<close> and suffix \<open>post\<close>.
\<close>

datatype lens_note = Note string | NoteQ string real string

record LensInterpretation =
  lens_name :: string
  coherence :: real
  confidence :: real
  interp_notes :: "lens_note list"
  concerns :: "string list"
  strengths :: "string list"

record CulturalLens =
  name :: string
  params :: LensParameters
  description :: string

text \<open>\<open>CulturalLens._optimize_q\<close>: the guard on \<open>q_raw <= 0\<close>, then two divisions.\<close>

definition optimize_q :: "LensParameters \<Rightarrow> real \<Rightarrow> py_error + real" where
  "optimize_q p q_raw =
     (if q_raw \<le> 0 then Inr 0
      else case py_div (q_raw\<^sup>2) (ki p) of
             Inl e \<Rightarrow> Inl e
           | Inr t \<Rightarrow> py_div q_raw (km p + q_raw + t))"

text \<open>
  The four advisory blocks of \<open>CulturalLens.interpret\<close>. Each returns what it appends to
  \<open>(notes, concerns, strengths)\<close>; the branches are in the order of the source.
\<close>

definition q_advice :: "LensParameters \<Rightarrow> real \<Rightarrow> lens_note list \<times> string list \<times> string list" where
  "q_advice p q =
     (let q_diff = q - q_baseline p in
      if \<bar>q_diff\<bar> > 0.2 then
        (if q_diff > 0 \<and> verbal_expression p < 0.4 then
           ([NoteQ ''High q ('' q
               '') in action-oriented culture may indicate significant distress despite reserved expression style''],
            [''Elevated activation in typically reserved communicator''], [])
         else if q_diff < 0 \<and> verbal_expression p > 0.6 then
           ([NoteQ ''Low q ('' q
               '') in verbally expressive culture may indicate suppression rather than calm''],
            [''Unusual suppression in typically expressive communicator''], [])
         else if q_diff > 0 then
           ([NoteQ ''q-activation elevated ('' q '') - within cultural range''], [], [])
         else ([], [], []))
      else ([], [], []))"

definition f_advice :: "LensParameters \<Rightarrow> real \<Rightarrow> lens_note list \<times> string list \<times> string list" where
  "f_advice p f =
     (if f < 0.4 then
        (if collective_orientation p > 0.6 then
           ([Note ''This lens expects higher social engagement - low f may signal isolation''],
            [''Low social expression in collective-oriented individual''], [])
         else if collective_orientation p < 0.4 then
           ([Note ''Low f is within normal range for individual-oriented lens''], [], [])
         else ([], [], []))
      else if f > 0.7 then ([], [], [''Strong social connection patterns''])
      else ([], [], []))"

definition psi_advice :: "LensParameters \<Rightarrow> real \<Rightarrow> lens_note list \<times> string list \<times> string list" where
  "psi_advice p psi =
     (if psi < 0.5 then
        (if psi_tolerance p > 0.4 then
           ([Note ''Narrative inconsistency within acceptable range for this lens''], [], [])
         else ([], [''Low consistency in consistency-valuing culture''], []))
      else if psi > 0.8 then ([], [], [''Strong narrative consistency''])
      else ([], [], []))"

definition tau_advice :: "real \<Rightarrow> lens_note list \<times> string list \<times> string list" where
  "tau_advice tau =
     (if tau < 0.4 then
        ([Note ''Present-focused temporal orientation - may be crisis mode''],
         [''Limited temporal integration''], [])
      else if tau > 0.7 then ([], [], [''Good integration of past experience''])
      else ([], [], []))"

definition fit_score :: "LensParameters \<Rightarrow> real \<Rightarrow> real \<Rightarrow> real" where
  "fit_score p q f =
     1 - (\<bar>q - q_baseline p\<bar> * 0.3
          + \<bar>f - 0.5 - (collective_orientation p - 0.5) * 0.4\<bar> * 0.3)"

text \<open>
  \<open>CulturalLens.interpret\<close> (\<open>interpret\<close> is a reserved word here, hence \<open>lens_interpret\<close>;
  likewise the field \<open>notes\<close> is \<open>interp_notes\<close>). The coherence is computed first (and may raise), the advice
  and the confidence afterwards.
\<close>

definition weighted_sum :: "LensParameters \<Rightarrow> real \<Rightarrow> real \<Rightarrow> real \<Rightarrow> real \<Rightarrow> real \<Rightarrow> real" where
  "weighted_sum p psi rho q_opt f tau =
     psi * psi_weight p + rho * rho_weight p + q_opt * q_weight p
     + f * f_weight p + tau * tau_weight p"

definition total_weight :: "LensParameters \<Rightarrow> real" where
  "total_weight p = psi_weight p + rho_weight p + q_weight p + f_weight p + tau_weight p"

definition advice ::
  "LensParameters \<Rightarrow> real \<Rightarrow> real \<Rightarrow> real \<Rightarrow> real
     \<Rightarrow> lens_note list \<times> string list \<times> string list" where
  "advice p psi q f tau =
     (let (qn, qc, qs) = q_advice p q;
          (fn, fc, fs) = f_advice p f;
          (pn, pc, ps) = psi_advice p psi;
          (tn, tc, ts) = tau_advice tau
      in (qn @ fn @ pn @ tn, qc @ fc @ pc @ tc, qs @ fs @ ps @ ts))"

definition lens_interpret ::
  "CulturalLens \<Rightarrow> real \<Rightarrow> real \<Rightarrow> real \<Rightarrow> real \<Rightarrow> real \<Rightarrow> py_error + LensInterpretation" where
  "lens_interpret lens psi rho q f tau =
     (case optimize_q (params lens) q of
        Inl e \<Rightarrow> Inl e
      | Inr q_opt \<Rightarrow>
          (case py_div (weighted_sum (params lens) psi rho q_opt f tau)
                       (total_weight (params lens)) of
             Inl e \<Rightarrow> Inl e
           | Inr c \<Rightarrow>
               Inr \<lparr>lens_name = name lens, coherence = c,
                    confidence = max 0.5 (min 1 (fit_score (params lens) q f)),
                    interp_notes = fst (advice (params lens) psi q f tau),
                    concerns = fst (snd (advice (params lens) psi q f tau)),
                    strengths = snd (snd (advice (params lens) psi q f tau))\<rparr>))"

subsection \<open>The lens library\<close>

text \<open>
  \<open>LensLibrary.lenses\<close> is a dict from names to lenses; \<open>get_lens\<close> is \<open>dict.get\<close> and
  \<open>list_lenses\<close> the keys in insertion order.
\<close>

type_synonym LensLibrary = "(string \<times> CulturalLens) list"

definition get_lens :: "LensLibrary \<Rightarrow> string \<Rightarrow> CulturalLens option" where
  "get_lens lib n = map_of lib n"

definition list_lenses :: "LensLibrary \<Rightarrow> string list" where
  "list_lenses lib = map fst lib"

definition mk_lens :: "string \<Rightarrow> string \<Rightarrow> LensParameters \<Rightarrow> CulturalLens" where
  "mk_lens n d p = \<lparr>name = n, params = p, description = d\<rparr>"

text \<open>The seven lenses of \<open>LensLibrary._init_default_lenses\<close>, in the order of the source.\<close>

definition default_library :: LensLibrary where
  "default_library =
     [(''combat_veteran'', mk_lens ''combat_veteran'' ''Calibration for those with combat experience''
         \<lparr>psi_weight = 1.2, rho_weight = 1.0, q_weight = 0.8, f_weight = 1.3, tau_weight = 1.0,
          q_baseline = 0.35, f_baseline = 0.7, psi_tolerance = 0.2,
          verbal_expression = 0.3, direct_communication = 0.8, collective_orientation = 0.8,
          km = 0.25, ki = 1.5\<rparr>),
      (''first_generation'', mk_lens ''first_generation''
         ''Calibration for first-generation Americans/immigrants''
         \<lparr>psi_weight = 0.9, rho_weight = 1.2, q_weight = 1.1, f_weight = 1.0, tau_weight = 1.1,
          q_baseline = 0.55, f_baseline = 0.6, psi_tolerance = 0.4,
          verbal_expression = 0.6, direct_communication = 0.4, collective_orientation = 0.7,
          km = 0.3, ki = 2.0\<rparr>),
      (''neurodivergent'', mk_lens ''neurodivergent''
         ''Calibration for neurodivergent communication styles''
         \<lparr>psi_weight = 1.3, rho_weight = 1.0, q_weight = 0.7, f_weight = 0.8, tau_weight = 1.0,
          q_baseline = 0.4, f_baseline = 0.4, psi_tolerance = 0.1,
          verbal_expression = 0.5, direct_communication = 0.9, collective_orientation = 0.4,
          km = 0.35, ki = 2.5\<rparr>),
      (''rural_traditional'', mk_lens ''rural_traditional''
         ''Calibration for rural/traditional backgrounds''
         \<lparr>psi_weight = 1.0, rho_weight = 1.2, q_weight = 0.7, f_weight = 1.0, tau_weight = 1.1,
          q_baseline = 0.35, f_baseline = 0.5, psi_tolerance = 0.3,
          verbal_expression = 0.3, direct_communication = 0.6, collective_orientation = 0.6,
          km = 0.3, ki = 2.0\<rparr>),
      (''urban_contemporary'', mk_lens ''urban_contemporary''
         ''Calibration for urban/contemporary expression''
         \<lparr>psi_weight = 0.9, rho_weight = 0.9, q_weight = 1.2, f_weight = 1.1, tau_weight = 0.9,
          q_baseline = 0.55, f_baseline = 0.6, psi_tolerance = 0.4,
          verbal_expression = 0.8, direct_communication = 0.5, collective_orientation = 0.5,
          km = 0.3, ki = 2.0\<rparr>),
      (''religious_framework'', mk_lens ''religious_framework''
         ''Calibration for faith-based meaning-making''
         \<lparr>psi_weight = 1.1, rho_weight = 1.3, q_weight = 1.0, f_weight = 1.2, tau_weight = 1.2,
          q_baseline = 0.5, f_baseline = 0.7, psi_tolerance = 0.3,
          verbal_expression = 0.6, direct_communication = 0.5, collective_orientation = 0.8,
          km = 0.3, ki = 2.0\<rparr>),
      (''female_service'', mk_lens ''female_service''
         ''Calibration accounting for female experience in military''
         \<lparr>psi_weight = 1.0, rho_weight = 1.0, q_weight = 1.0, f_weight = 1.1, tau_weight = 1.0,
          q_baseline = 0.5, f_baseline = 0.5, psi_tolerance = 0.3,
          verbal_expression = 0.6, direct_communication = 0.7, collective_orientation = 0.6,
          km = 0.3, ki = 2.0\<rparr>)]"

subsection \<open>\<open>LensDeviationCalculator.calculate_deviation\<close>\<close>

record DeviationAnalysis =
  deviation :: real
  is_lens_invariant :: bool
  interpretations :: "(string \<times> LensInterpretation) list"
  coherence_range :: "real \<times> real"
  coherence_mean :: real
  universal_concerns :: "string list"
  translation_needed :: bool

text \<open>
  The loop over the lens names: a name the library does not know is skipped, an
  interpretation is stored under its name in the dict \<open>interpretations\<close> and its coherence
  appended to the list \<open>coherences\<close>. An exception of \<open>interpret\<close> leaves the loop.
\<close>

fun collect_interpretations ::
  "LensLibrary \<Rightarrow> real \<Rightarrow> real \<Rightarrow> real \<Rightarrow> real \<Rightarrow> real \<Rightarrow> string list
     \<Rightarrow> (string \<times> LensInterpretation) list \<times> real list
     \<Rightarrow> py_error + ((string \<times> LensInterpretation) list \<times> real list)" where
  "collect_interpretations lib psi rho q f tau [] acc = Inr acc"
| "collect_interpretations lib psi rho q f tau (lens_nm # rest) (interps, coherences) =
     (case get_lens lib lens_nm of
        None \<Rightarrow> collect_interpretations lib psi rho q f tau rest (interps, coherences)
      | Some lens \<Rightarrow>
          (case lens_interpret lens psi rho q f tau of
             Inl e \<Rightarrow> Inl e
           | Inr interp \<Rightarrow>
               collect_interpretations lib psi rho q f tau rest
                 (AList.update lens_nm interp interps, coherences @ [coherence interp])))"

text \<open>\<open>concern_counts[c] = concern_counts.get(c, 0) + 1\<close> over all concerns.\<close>

definition count_concern :: "string \<Rightarrow> (string \<times> nat) list \<Rightarrow> (string \<times> nat) list" where
  "count_concern c counts =
     AList.update c ((case map_of counts c of None \<Rightarrow> 0 | Some k \<Rightarrow> k) + 1) counts"

definition concern_counts :: "string list \<Rightarrow> (string \<times> nat) list" where
  "concern_counts all_concerns = fold count_concern all_concerns []"

definition calculate_deviation ::
  "LensLibrary \<Rightarrow> real \<Rightarrow> real \<Rightarrow> real \<Rightarrow> real \<Rightarrow> real \<Rightarrow> string list option
     \<Rightarrow> py_error + (real \<times> DeviationAnalysis)" where
  "calculate_deviation lib psi rho q f tau lenses_arg =
     (let lenses = (case lenses_arg of None \<Rightarrow> list_lenses lib | Some ls \<Rightarrow> ls) in
      case collect_interpretations lib psi rho q f tau lenses ([], []) of
        Inl e \<Rightarrow> Inl e
      | Inr (interps, coherences) \<Rightarrow>
          (case (if length coherences < 2 then Inr 0 else py_stdev coherences) of
             Inl e \<Rightarrow> Inl e
           | Inr dev \<Rightarrow>
               (let is_invariant = (dev < 0.1);
                    all_concerns = concat (map (\<lambda>(n, i). concerns i) interps);
                    threshold = real (length lenses) / 2;
                    universal = map fst (filter (\<lambda>(c, k). real k > threshold)
                                           (concern_counts all_concerns))
                in (case py_min coherences of
                      Inl e \<Rightarrow> Inl e
                    | Inr lo \<Rightarrow>
                        (case py_max coherences of
                           Inl e \<Rightarrow> Inl e
                         | Inr hi \<Rightarrow>
                             (case py_mean coherences of
                                Inl e \<Rightarrow> Inl e
                              | Inr m \<Rightarrow>
                                  Inr (dev,
                                       \<lparr>deviation = dev, is_lens_invariant = is_invariant,
                                        interpretations = interps, coherence_range = (lo, hi),
                                        coherence_mean = m, universal_concerns = universal,
                                        translation_needed = (\<not> is_invariant)\<rparr>)))))))"

section \<open>Athletic coherence (\<open>athletic_coherence/core.py\<close>)\<close>

text \<open>
  Field names that several dataclasses share (\<open>player_id\<close>, \<open>date\<close>, \<open>severity\<close>,
  \<open>confidence\<close>, \<open>description\<close>) carry a prefix here, and so do \<open>id\<close> and
  \<open>value\<close>, which are taken in HOL. A \<open>datetime\<close> is its calendar date; the only thing
  the modelled code reads from it is the year, through \<open>strftime("%Y")\<close>.
\<close>

datatype FlagSeverity = INFO | WATCH | ELEVATED | CRITICAL

datatype PatternType = INDIVIDUAL | POSITIONAL | SYSTEMIC | PROTOCOL

record datetime =
  dt_year :: nat
  dt_month :: nat
  dt_day :: nat

record InjuryRecord =
  player_id :: string
  position :: string
  position_group :: string
  injury_type :: string
  body_part :: string
  severity :: string
  date :: datetime
  days_missed :: int
  is_recurrence :: bool
  previous_injury_id :: "string option"

record TrainingLoad =
  t_player_id :: string
  t_date :: datetime
  load_score :: real
  intensity :: real
  duration_minutes :: int
  session_type :: string

record RecoveryMetric =
  r_player_id :: string
  r_date :: datetime
  reported_readiness :: real
  objective_readiness :: real
  sleep_quality :: real
  soreness_level :: real
  hrv :: "real option"

text \<open>
  \<open>seasons_observed\<close> is built with \<open>list(set(...))\<close>, whose order Python leaves open:
  it is a set of years here.
\<close>

record SystemicFlag =
  flag_id :: string
  pattern_type :: PatternType
  flag_severity :: FlagSeverity
  flag_description :: string
  affected_positions :: "string list"
  affected_players_count :: nat
  seasons_observed :: "nat set"
  data_points :: nat
  flag_confidence :: real
  hypothesis :: string
  correlation_strength :: real
  investigation_areas :: "string list"
  first_detected :: datetime
  last_updated :: datetime


subsection \<open>The five dimension calculators of \<open>PhysicalCoherenceScore\<close>\<close>




text \<open>The list \<open>gaps\<close> and its average, as both \<open>_calculate_team_protection\<close> and
  \<open>_detect_systemic_flags\<close> compute them.\<close>

definition readiness_gaps :: "RecoveryMetric list \<Rightarrow> real list" where
  "readiness_gaps recovery = map (\<lambda>r. \<bar>reported_readiness r - objective_readiness r\<bar>) recovery"



subsection \<open>\<open>PhysicalCoherenceScore._detect_systemic_flags\<close>\<close>

text \<open>\<open>str.upper\<close> and \<open>str.lower\<close> on ASCII text.\<close>

definition ascii_upper :: "char \<Rightarrow> char" where
  "ascii_upper c =
     (let n = (of_char c :: nat) in if 97 \<le> n \<and> n \<le> 122 then char_of (n - 32) else c)"

definition ascii_lower :: "char \<Rightarrow> char" where
  "ascii_lower c =
     (let n = (of_char c :: nat) in if 65 \<le> n \<and> n \<le> 90 then char_of (n + 32) else c)"

definition py_upper :: "string \<Rightarrow> string" where
  "py_upper s = map ascii_upper s"

definition py_lower :: "string \<Rightarrow> string" where
  "py_lower s = map ascii_lower s"

text \<open>
  The dict \<open>position_groups\<close>: an injury is appended to the list of its group, and a group
  seen for the first time is entered at the end of the dict.
\<close>

definition add_to_group ::
  "InjuryRecord \<Rightarrow> (string \<times> InjuryRecord list) list \<Rightarrow> (string \<times> InjuryRecord list) list" where
  "add_to_group injury groups =
     AList.update (position_group injury)
       ((case map_of groups (position_group injury) of None \<Rightarrow> [] | Some l \<Rightarrow> l) @ [injury])
       groups"

definition position_groups :: "InjuryRecord list \<Rightarrow> (string \<times> InjuryRecord list) list" where
  "position_groups injuries = fold add_to_group injuries []"

text \<open>
  The body of the loop over the groups: the flag is appended when the group has at least
  three soft-tissue injuries and they are more than half of the group's injuries. The
  \<open>and\<close> of the source evaluates the ratio only when the count is at least 3, so the
  division is by a non-zero length.
\<close>

definition soft_tissue_flags :: "datetime \<Rightarrow> string \<Rightarrow> InjuryRecord list \<Rightarrow> SystemicFlag list" where
  "soft_tissue_flags now grp group_injuries =
     (let soft_tissue = filter (\<lambda>i. injury_type i = ''soft_tissue'') group_injuries in
      if length soft_tissue \<ge> 3
         \<and> real (length soft_tissue) / real (length group_injuries) > 0.5
      then
        [\<lparr>flag_id = ''SYS-SOFT-'' @ py_upper grp,
          pattern_type = POSITIONAL,
          flag_severity = ELEVATED,
          flag_description = ''High soft tissue injury rate in '' @ grp,
          affected_positions = [grp],
          affected_players_count = card (set (map player_id soft_tissue)),
          seasons_observed = set (map (\<lambda>i. dt_year (date i)) soft_tissue),
          data_points = length soft_tissue,
          flag_confidence = 0.8,
          hypothesis = ''Training load or nutrition protocol may not match metabolic demands for this position group'',
          correlation_strength = 0.7,
          investigation_areas =
            [''Position-specific training load audit'',
             ''Nutrition assessment (collagen, anti-inflammatory)'',
             ''Recovery protocol review''],
          first_detected = now,
          last_updated = now\<rparr>]
      else [])"

definition disclosure_flags :: "datetime \<Rightarrow> RecoveryMetric list \<Rightarrow> SystemicFlag list" where
  "disclosure_flags now recovery =
     (if recovery \<noteq> [] then
        (let gaps = readiness_gaps recovery;
             avg_gap = sum_list gaps / real (length gaps)
         in if avg_gap > 2.0 then
              [\<lparr>flag_id = ''SYS-DISCLOSURE'',
                pattern_type = SYSTEMIC,
                flag_severity = CRITICAL,
                flag_description = ''Athletes performing readiness instead of honest reporting'',
                affected_positions = [''All''],
                affected_players_count = card (set (map r_player_id recovery)),
                seasons_observed = {},
                data_points = length recovery,
                flag_confidence = 0.85,
                hypothesis = ''Disclosure environment may not feel safe - reporting pain may affect playing time'',
                correlation_strength = 0.8,
                investigation_areas =
                  [''Medical staff independence review'',
                   ''Playing time correlation with injury reports'',
                   ''Anonymous athlete survey on disclosure safety''],
                first_detected = now,
                last_updated = now\<rparr>]
            else [])
      else [])"

text \<open>\<open>now\<close> is the value of \<open>datetime.now()\<close> at the call.\<close>

definition detect_systemic_flags ::
  "datetime \<Rightarrow> InjuryRecord list \<Rightarrow> TrainingLoad list \<Rightarrow> RecoveryMetric list
     \<Rightarrow> SystemicFlag list" where
  "detect_systemic_flags now injuries training recovery =
     concat (map (\<lambda>(grp, group_injuries). soft_tissue_flags now grp group_injuries)
               (position_groups injuries))
     @ disclosure_flags now recovery"

section \<open>Text analyzers (\<open>team_coherence/analyzers\<close>)\<close>

subsection \<open>The two shapes of regular expression the analyzers use\<close>

text \<open>
  All the patterns of \<open>BaseAnalyzer\<close> and the indicator patterns of \<open>CISDAnalyzer\<close> have
  the shape \<open>\b(w1|w2|...)\b\<close> with non-empty literal alternatives, used with
  \<open>re.findall\<close>; the environmental patterns are \<open>w1|w2|w3\<close>, used with \<open>re.search\<close>.
  A word character is an ASCII letter, digit or underscore (the model covers ASCII text).
  \<open>\b\<close> holds between two positions when exactly one of the neighbours is a word
  character; the ends of the text count as non-word.
\<close>

definition is_word_char :: "char \<Rightarrow> bool" where
  "is_word_char c =
     (let n = (of_char c :: nat) in
      (48 \<le> n \<and> n \<le> 57) \<or> (65 \<le> n \<and> n \<le> 90) \<or> (97 \<le> n \<and> n \<le> 122) \<or> n = 95)"

definition word_boundary :: "char option \<Rightarrow> char option \<Rightarrow> bool" where
  "word_boundary prev nxt =
     ((case prev of None \<Rightarrow> False | Some c \<Rightarrow> is_word_char c)
      \<noteq> (case nxt of None \<Rightarrow> False | Some c \<Rightarrow> is_word_char c))"

text \<open>
  The alternation at one position, the opening \<open>\b\<close> already checked: the first
  alternative, in the order written, that the text continues with and that is followed by
  a word boundary.
\<close>

fun match_alternatives :: "string list \<Rightarrow> string \<Rightarrow> string option" where
  "match_alternatives [] s = None"
| "match_alternatives (a # alts) s =
     (if take (length a) s = a
         \<and> word_boundary (Some (last a)) (case drop (length a) s of [] \<Rightarrow> None | c # _ \<Rightarrow> Some c)
      then Some a
      else match_alternatives alts s)"

text \<open>
  \<open>re.findall\<close> scans from the left and resumes after each match. \<open>skip\<close> is the number
  of characters still covered by the last match and \<open>prev\<close> the character to the left.
\<close>

fun findall_from :: "string list \<Rightarrow> nat \<Rightarrow> char option \<Rightarrow> string \<Rightarrow> string list" where
  "findall_from alts skip prev [] = []"
| "findall_from alts skip prev (c # cs) =
     (if 0 < skip then findall_from alts (skip - 1) (Some c) cs
      else if word_boundary prev (Some c) then
        (case match_alternatives alts (c # cs) of
           Some m \<Rightarrow> m # findall_from alts (length m - 1) (Some c) cs
         | None \<Rightarrow> findall_from alts 0 (Some c) cs)
      else findall_from alts 0 (Some c) cs)"

definition findall_words :: "string list \<Rightarrow> string \<Rightarrow> string list" where
  "findall_words alts text = findall_from alts 0 None text"

text \<open>\<open>re.search\<close> with a plain alternation: some alternative occurs somewhere.\<close>

fun search_any :: "string list \<Rightarrow> string \<Rightarrow> bool" where
  "search_any alts [] = list_ex (\<lambda>a. a = []) alts"
| "search_any alts (c # cs) =
     (list_ex (\<lambda>a. take (length a) (c # cs) = a) alts \<or> search_any alts cs)"

text \<open>\<open>sum(len(re.findall(p, text)) for p in patterns)\<close>.\<close>

definition count_matches :: "string list list \<Rightarrow> string \<Rightarrow> nat" where
  "count_matches patterns text = sum_list (map (\<lambda>p. length (findall_words p text)) patterns)"

subsection \<open>\<open>BaseAnalyzer._extract_pattern_regex\<close>\<close>

record PatternResult =
  p_psi :: real
  p_rho :: real
  p_q :: real
  p_f :: real
  p_tau :: real
  p_confidence :: real
  source_count :: nat
  p_notes :: "string list"

definition isolation_patterns :: "string list list" where
  "isolation_patterns =
     [[''alone'', ''lonely'', ''isolated'', ''nobody'', ''no one''], [''by myself'', ''on my own'']]"

definition connection_patterns :: "string list list" where
  "connection_patterns =
     [[''we'', ''us'', ''our'', ''together'', ''team''],
      [''support'', ''helped'', ''buddy'', ''brother'', ''sister'']]"

definition activation_patterns :: "string list list" where
  "activation_patterns =
     [[''stressed'', ''angry'', ''frustrated'', ''scared'', ''anxious''],
      [''worried'', ''tense'', ''overwhelmed'', ''exhausted'']]"

definition wisdom_patterns :: "string list list" where
  "wisdom_patterns =
     [[''learned'', ''realized'', ''experience'', ''wisdom''],
      [''years'', ''before'', ''remember'', ''history'']]"

definition past_patterns :: "string list list" where
  "past_patterns = [[''was'', ''were'', ''used to'', ''before'', ''ago'']]"

definition present_patterns :: "string list list" where
  "present_patterns = [[''now'', ''today'', ''right now'', ''currently'']]"

text \<open>
  The source also computes \<open>word_count\<close> from \<open>text_lower.split()\<close> and never reads it;
  it is left out. The exclamation marks are counted in the original text, everything else
  in the lower-cased one.
\<close>

definition extract_pattern_regex :: "string \<Rightarrow> PatternResult" where
  "extract_pattern_regex text =
     (let text_lower = py_lower text;
          isolation = count_matches isolation_patterns text_lower;
          connection = count_matches connection_patterns text_lower;
          total = isolation + connection;
          fv = (if total > 0 then real connection / real total else 0.5);
          activation = count_matches activation_patterns text_lower;
          exclamations = count_list text (CHR ''!'');
          qv = min (0.3 + real activation * 0.1 + real exclamations * 0.05) 1.0;
          wisdom = count_matches wisdom_patterns text_lower;
          rhov = min (0.3 + real wisdom * 0.1) 1.0;
          past = count_matches past_patterns text_lower;
          present = count_matches present_patterns text_lower;
          tauv = (if past > present then min (0.5 + real past * 0.05) 1.0
                  else if present > past then max (0.5 - real present * 0.05) 0.1
                  else 0.5)
      in \<lparr>p_psi = 0.7, p_rho = rhov, p_q = qv, p_f = fv, p_tau = tauv,
          p_confidence = 0.6, source_count = 1, p_notes = []\<rparr>)"

subsection \<open>\<open>CISDAnalyzer.analyze\<close>\<close>

record CISDAnalysisResult =
  processing_ratio :: real
  performance_ratio :: real
  processing_indicators :: "string set"
  performance_indicators :: "string set"
  environmental_concerns :: "string list"
  facilitator_notes :: "string option"
  pattern :: PatternResult

definition PROCESSING_INDICATORS :: "string list list" where
  "PROCESSING_INDICATORS =
     [[''realized'', ''understood'', ''felt'', ''struggled''],
      [''hard'', ''difficult'', ''challenging'', ''painful''],
      [''support'', ''helped'', ''talked'', ''shared''],
      [''processing'', ''working through'', ''dealing with'']]"

definition PERFORMANCE_INDICATORS :: "string list list" where
  "PERFORMANCE_INDICATORS =
     [[''fine'', ''okay'', ''good'', ''normal'', ''usual''],
      [''handled'', ''managed'', ''no problem''],
      [''moved on'', ''over it'', ''past it''],
      [''don'' @ [CHR 0x27] @ ''t need'', ''unnecessary'']]"

definition ENVIRONMENTAL_CONCERNS :: "(string list \<times> string) list" where
  "ENVIRONMENTAL_CONCERNS =
     [([''career'', ''promotion'', ''evaluation''], ''Career concerns may affect disclosure''),
      ([''command'', ''leadership'', ''supervisor''], ''Command presence may affect openness''),
      ([''mandatory'', ''required'', ''ordered''], ''Mandatory nature may reduce authenticity''),
      ([''quiet'', ''silent'', ''uncomfortable''],
       ''Unusual silence may indicate unsafe environment'')]"

text \<open>\<open>incident_date\<close> is accepted and never read; \<open>facilitator_notes\<close> is passed through.\<close>

definition analyze :: "string \<Rightarrow> datetime option \<Rightarrow> string option \<Rightarrow> CISDAnalysisResult" where
  "analyze cisd_document incident_date fac_notes =
     (let doc_lower = py_lower cisd_document;
          processing_matches = concat (map (\<lambda>p. findall_words p doc_lower) PROCESSING_INDICATORS);
          performance_matches = concat (map (\<lambda>p. findall_words p doc_lower) PERFORMANCE_INDICATORS);
          total = length processing_matches + length performance_matches;
          env = map snd (filter (\<lambda>(p, concern). search_any p doc_lower) ENVIRONMENTAL_CONCERNS)
      in \<lparr>processing_ratio =
            (if total > 0 then real (length processing_matches) / real total else 0.5),
          performance_ratio =
            (if total > 0 then real (length performance_matches) / real total else 0.5),
          processing_indicators = set processing_matches,
          performance_indicators = set performance_matches,
          environmental_concerns = env,
          facilitator_notes = fac_notes,
          pattern = extract_pattern_regex cisd_document\<rparr>)"

section \<open>Example inputs\<close>


text \<open>Three lenses that differ only in the weight of \<open>rho\<close>.\<close>

definition rho_library :: LensLibrary where
  "rho_library =
     [(''light'', mk_lens ''light'' [] (default_parameters\<lparr>rho_weight := 1\<rparr>)),
      (''heavy'', mk_lens ''heavy'' [] (default_parameters\<lparr>rho_weight := 16\<rparr>)),
      (''heavier'', mk_lens ''heavier'' [] (default_parameters\<lparr>rho_weight := 36\<rparr>))]"


definition example_date :: datetime where
  "example_date = \<lparr>dt_year = 2024, dt_month = 9, dt_day = 15\<rparr>"

definition secondary_injury :: "string \<Rightarrow> string \<Rightarrow> InjuryRecord" where
  "secondary_injury pid ty =
     \<lparr>player_id = pid, position = ''CB'', position_group = ''secondary'', injury_type = ty,
      body_part = ''hamstring'', severity = ''minor'', date = example_date, days_missed = 7,
      is_recurrence = False, previous_injury_id = None\<rparr>"

text \<open>Six injuries of the group \<open>secondary\<close>, five of them soft-tissue.\<close>

definition secondary_injuries :: "InjuryRecord list" where
  "secondary_injuries =
     [secondary_injury ''p1'' ''soft_tissue'', secondary_injury ''p2'' ''soft_tissue'',
      secondary_injury ''p3'' ''structural'', secondary_injury ''p4'' ''soft_tissue'',
      secondary_injury ''p5'' ''soft_tissue'', secondary_injury ''p1'' ''soft_tissue'']"




definition cisd_text :: string where
  "cisd_text = ''All participants reported they were fine and handling the situation normally. No one expressed need for additional support.''"

lemmas lens_eval =
  lens_interpret_def optimize_q_def py_div_def weighted_sum_def total_weight_def
  mk_lens_def default_parameters_def get_lens_def list_lenses_def advice_def q_advice_def
  f_advice_def psi_advice_def tau_advice_def

section \<open>Properties of the lens engine\<close>






text \<open>
  Claim C8. The outcome of \<open>interpret\<close> as far as the coherence goes (the coherence
  scalar, or the exception raised while computing it) is the same for two lenses that
  agree on the five weights and on \<open>km\<close> and \<open>ki\<close>, whatever their names, baselines,
  tolerance and expression knobs are.
\<close>

theorem coherence_ignores_baselines:
  assumes "psi_weight (params l1) = psi_weight (params l2)"
      and "rho_weight (params l1) = rho_weight (params l2)"
      and "q_weight (params l1) = q_weight (params l2)"
      and "f_weight (params l1) = f_weight (params l2)"
      and "tau_weight (params l1) = tau_weight (params l2)"
      and "km (params l1) = km (params l2)"
      and "ki (params l1) = ki (params l2)"
  shows "map_sum id coherence (lens_interpret l1 psi rho q f tau)
         = map_sum id coherence (lens_interpret l2 psi rho q f tau)"
  using assms
  by (simp add: lens_interpret_def optimize_q_def py_div_def weighted_sum_def total_weight_def
           split: sum.splits)

text \<open>
  The theorem at the default lens and a lens that differs from it in the name, both
  baselines, the tolerance and the three expression knobs: the coherence is the same, and
  the concerns are not.
\<close>

theorem coherence_ignores_baselines_witness:
  "map_sum id coherence
     (lens_interpret (mk_lens ''plain'' [] default_parameters) 0.3 0.6 0.5 0.3 0.5)
   = map_sum id coherence
     (lens_interpret
        (mk_lens ''reserved'' ''low baselines''
          (default_parameters\<lparr>q_baseline := 0.1, f_baseline := 0.9, psi_tolerance := 0.5,
             verbal_expression := 0.2, direct_communication := 0.9,
             collective_orientation := 0.8\<rparr>))
        0.3 0.6 0.5 0.3 0.5)
   \<and> concerns (projr (lens_interpret (mk_lens ''plain'' [] default_parameters) 0.3 0.6 0.5 0.3 0.5))
     \<noteq> concerns (projr (lens_interpret
        (mk_lens ''reserved'' ''low baselines''
          (default_parameters\<lparr>q_baseline := 0.1, f_baseline := 0.9, psi_tolerance := 0.5,
             verbal_expression := 0.2, direct_communication := 0.9,
             collective_orientation := 0.8\<rparr>))
        0.3 0.6 0.5 0.3 0.5))"
proof -
  let ?l1 = "mk_lens ''plain'' [] default_parameters"
  let ?l2 = "mk_lens ''reserved'' ''low baselines''
          (default_parameters\<lparr>q_baseline := 0.1, f_baseline := 0.9, psi_tolerance := 0.5,
             verbal_expression := 0.2, direct_communication := 0.9,
             collective_orientation := 0.8\<rparr>)"
  have "map_sum id coherence (lens_interpret ?l1 0.3 0.6 0.5 0.3 0.5)
        = map_sum id coherence (lens_interpret ?l2 0.3 0.6 0.5 0.3 0.5)"
    by (rule coherence_ignores_baselines) (simp_all add: mk_lens_def default_parameters_def)
  moreover have "concerns (projr (lens_interpret ?l1 0.3 0.6 0.5 0.3 0.5))
     \<noteq> concerns (projr (lens_interpret ?l2 0.3 0.6 0.5 0.3 0.5))"
    by (simp add: lens_interpret_def optimize_q_def py_div_def mk_lens_def default_parameters_def
          advice_def q_advice_def f_advice_def psi_advice_def tau_advice_def
          total_weight_def weighted_sum_def power2_eq_square)
  ultimately show ?thesis by simp
qed

section \<open>Properties of the deviation calculator\<close>

subsection \<open>The sample standard deviation when a value is appended\<close>

lemma sum_sq_shift:
  "sum_list (map (\<lambda>x. (x - m)\<^sup>2) xs)
   = sum_list (map (\<lambda>x. x\<^sup>2) xs) - 2 * m * sum_list xs + real (length xs) * m\<^sup>2"
  for m :: real
  by (induction xs) (simp_all add: power2_eq_square algebra_simps)

lemma sq_dev_alt:
  assumes "xs \<noteq> []"
  shows "sq_dev xs = sum_list (map (\<lambda>x. x\<^sup>2) xs) - (sum_list xs)\<^sup>2 / real (length xs)"
proof -
  have n: "real (length xs) \<noteq> 0" using assms by simp
  show ?thesis
    unfolding sq_dev_def mean_val_def sum_sq_shift
    using n by (simp add: power2_eq_square field_simps)
qed


lemma sq_dev_snoc:
  assumes "xs \<noteq> []"
  shows "sq_dev (xs @ [y])
         = sq_dev xs + real (length xs) / (real (length xs) + 1) * (y - mean_val xs)\<^sup>2"
proof -
  define n where "n = real (length xs)"
  define s where "s = sum_list xs"
  define t where "t = sum_list (map (\<lambda>x. x\<^sup>2) xs)"
  have n: "0 < n" using assms by (simp add: n_def)
  have a: "sq_dev xs = t - s\<^sup>2 / n"
    using sq_dev_alt [OF assms] by (simp add: n_def s_def t_def)
  have b: "sq_dev (xs @ [y]) = t + y\<^sup>2 - (s + y)\<^sup>2 / (n + 1)"
    using sq_dev_alt [of "xs @ [y]"] by (simp add: n_def s_def t_def add.commute)
  have c: "mean_val xs = s / n" by (simp add: mean_val_def n_def s_def)
  define u where "u = s / n"
  have s: "s = n * u" using n by (simp add: u_def)
  have np: "n + 1 \<noteq> 0" using n by simp
  have "(n + 1) * (y\<^sup>2 - (n * u + y)\<^sup>2 / (n + 1)) = (n + 1) * y\<^sup>2 - (n * u + y)\<^sup>2"
    using np by (simp add: right_diff_distrib)
  also have "\<dots> = n * (y - u)\<^sup>2 - (n + 1) * (n * u\<^sup>2)"
    by (simp add: power2_eq_square algebra_simps)
  also have "\<dots> = (n + 1) * (n * (y - u)\<^sup>2 / (n + 1) - n * u\<^sup>2)"
    using np by (simp add: right_diff_distrib)
  finally have "y\<^sup>2 - (n * u + y)\<^sup>2 / (n + 1) = n * (y - u)\<^sup>2 / (n + 1) - n * u\<^sup>2"
    using n by simp
  moreover have "(n * u)\<^sup>2 / n = n * u\<^sup>2"
    using n by (simp add: power2_eq_square)
  ultimately have "t + y\<^sup>2 - (s + y)\<^sup>2 / (n + 1) = t - s\<^sup>2 / n + n / (n + 1) * (y - s / n)\<^sup>2"
    unfolding s using n by simp
  then show ?thesis
    unfolding a b c by (simp add: n_def)
qed

lemma stdev_snoc_le_iff:
  assumes "2 \<le> length xs"
  shows "stdev_val xs \<le> stdev_val (xs @ [y])
         \<longleftrightarrow> (real (length xs) + 1) * sq_dev xs
               \<le> real (length xs) * (real (length xs) - 1) * (y - mean_val xs)\<^sup>2"
proof -
  define n where "n = real (length xs)"
  define S where "S = sq_dev xs"
  define d where "d = (y - mean_val xs)\<^sup>2"
  have n: "2 \<le> n" using assms by (simp add: n_def)
  have ne: "xs \<noteq> []" using assms by auto
  have S': "sq_dev (xs @ [y]) = S + n / (n + 1) * d"
    using sq_dev_snoc [OF ne] by (simp add: n_def S_def d_def)
  have "stdev_val xs \<le> stdev_val (xs @ [y]) \<longleftrightarrow> S / (n - 1) \<le> (S + n / (n + 1) * d) / n"
    unfolding stdev_val_def S' [unfolded S_def n_def] 
    by (simp add: n_def S_def)
  also have "\<dots> \<longleftrightarrow> S * n \<le> (S + n / (n + 1) * d) * (n - 1)"
    using n by (simp add: pos_divide_le_eq pos_le_divide_eq)
  also have "(S + n / (n + 1) * d) * (n - 1) = S * n - S + n * (n - 1) * d / (n + 1)"
    by (simp add: algebra_simps)
  also have "S * n \<le> S * n - S + n * (n - 1) * d / (n + 1) \<longleftrightarrow> S \<le> n * (n - 1) * d / (n + 1)"
    by simp
  also have "\<dots> \<longleftrightarrow> S * (n + 1) \<le> n * (n - 1) * d"
    using n by (simp add: pos_le_divide_eq)
  also have "S * (n + 1) = (n + 1) * S" by simp
  finally show ?thesis by (simp add: n_def S_def d_def)
qed

subsection \<open>The loop and the result of \<open>calculate_deviation\<close>\<close>

lemma collect_interpretations_append:
  "collect_interpretations lib psi rho q f tau (xs @ ys) acc
   = (case collect_interpretations lib psi rho q f tau xs acc of
        Inl e \<Rightarrow> Inl e
      | Inr acc' \<Rightarrow> collect_interpretations lib psi rho q f tau ys acc')"
proof (induction xs arbitrary: acc)
  case Nil
  show ?case by simp
next
  case (Cons x xs)
  obtain interps cs where acc: "acc = (interps, cs)" by (cases acc)
  show ?case
    unfolding acc by (simp add: Cons.IH split: option.splits sum.splits)
qed

lemma py_min_defined: "cs \<noteq> [] \<Longrightarrow> \<exists>lo. py_min cs = Inr lo"
  by (cases cs) simp_all

lemma py_max_defined: "cs \<noteq> [] \<Longrightarrow> \<exists>hi. py_max cs = Inr hi"
  by (cases cs) simp_all

lemma calculate_deviation_defined:
  assumes "collect_interpretations lib psi rho q f tau
             (case lenses_arg of None \<Rightarrow> list_lenses lib | Some ls \<Rightarrow> ls) ([], [])
           = Inr (interps, cs)"
      and "cs \<noteq> []"
  shows "\<exists>a. calculate_deviation lib psi rho q f tau lenses_arg
              = Inr (if length cs < 2 then 0 else stdev_val cs, a)
             \<and> deviation a = (if length cs < 2 then 0 else stdev_val cs)
             \<and> is_lens_invariant a = ((if length cs < 2 then 0 else stdev_val cs) < 0.1)"
proof -
  obtain lo where lo: "py_min cs = Inr lo" using py_min_defined [OF assms(2)] by blast
  obtain hi where hi: "py_max cs = Inr hi" using py_max_defined [OF assms(2)] by blast
  have m: "py_mean cs = Inr (mean_val cs)" using assms(2) by (simp add: py_mean_def)
  show ?thesis
    by (simp add: calculate_deviation_def assms(1) lo hi m py_stdev_def Let_def)
qed

text \<open>
  Claim C6 says that \<open>calculate_deviation\<close> called with an empty list of lens names returns
  without error. It does not: the deviation is set to \<open>0.0\<close> for fewer than two
  coherences, and then \<open>min(coherences)\<close> raises \<open>ValueError\<close> on the empty list, for
  every library and every pattern tuple.
\<close>

theorem calculate_deviation_empty_lenses:
  "calculate_deviation lib psi rho q f tau (Some []) = Inl ValueError"
  by (simp add: calculate_deviation_def)

text \<open>
  Claim C4, as amended. Let the lens names \<open>lenses\<close> give at least two coherences \<open>cs\<close>,
  with mean \<open>m\<close>, and let one more lens with coherence \<open>y\<close> be appended. Then both calls
  of \<open>calculate_deviation\<close> return, with the sample standard deviations of \<open>cs\<close> and of
  \<open>cs\<close> extended by \<open>y\<close>, and the deviation does not decrease exactly when
  \<open>(n + 1) * \<Sum>(c - m)\<^sup>2 \<le> n * (n - 1) * (y - m)\<^sup>2\<close>, where \<open>n\<close> is the number of
  coherences before. Lying outside the range of \<open>cs\<close> is not what matters.
\<close>

theorem deviation_after_adding_lens:
  assumes "collect_interpretations lib psi rho q f tau lenses ([], []) = Inr (interps, cs)"
      and "2 \<le> length cs"
      and "get_lens lib new_lens = Some lens"
      and "lens_interpret lens psi rho q f tau = Inr i"
  shows "\<exists>a a'. calculate_deviation lib psi rho q f tau (Some lenses) = Inr (stdev_val cs, a)
           \<and> calculate_deviation lib psi rho q f tau (Some (lenses @ [new_lens]))
               = Inr (stdev_val (cs @ [coherence i]), a')
           \<and> (stdev_val cs \<le> stdev_val (cs @ [coherence i])
                \<longleftrightarrow> (real (length cs) + 1) * sq_dev cs
                      \<le> real (length cs) * (real (length cs) - 1) * (coherence i - mean_val cs)\<^sup>2)"
proof -
  have ne: "cs \<noteq> []" using assms(2) by auto
  from calculate_deviation_defined [of lib psi rho q f tau "Some lenses" interps cs] assms(1) ne
  obtain a where "calculate_deviation lib psi rho q f tau (Some lenses)
      = Inr (if length cs < 2 then 0 else stdev_val cs, a)"
    by auto
  moreover have "\<not> length cs < 2" using assms(2) by simp
  ultimately have a: "calculate_deviation lib psi rho q f tau (Some lenses) = Inr (stdev_val cs, a)"
    by (simp only: if_False)
  have "collect_interpretations lib psi rho q f tau (lenses @ [new_lens]) ([], [])
        = Inr (AList.update new_lens i interps, cs @ [coherence i])"
    by (simp add: collect_interpretations_append assms)
  from calculate_deviation_defined [of lib psi rho q f tau "Some (lenses @ [new_lens])"
         "AList.update new_lens i interps" "cs @ [coherence i]"] this
  obtain a' where "calculate_deviation lib psi rho q f tau (Some (lenses @ [new_lens]))
      = Inr (if length (cs @ [coherence i]) < 2 then 0 else stdev_val (cs @ [coherence i]), a')"
    by auto
  moreover have "\<not> length (cs @ [coherence i]) < 2" using ne by simp
  ultimately have a': "calculate_deviation lib psi rho q f tau (Some (lenses @ [new_lens]))
               = Inr (stdev_val (cs @ [coherence i]), a')"
    by (simp only: if_False)
  from a a' stdev_snoc_le_iff [OF assms(2)] show ?thesis by blast
qed

text \<open>
  The theorem at the library of three \<open>rho\<close> weights and the tuple \<open>(0, 1, 0, 0, 0)\<close>:
  coherences \<open>1/5\<close> and \<open>4/5\<close>, then \<open>9/10\<close>.
\<close>

theorem deviation_after_adding_lens_witness:
  "\<exists>a a'. calculate_deviation rho_library 0 1 0 0 0 (Some [''light'', ''heavy''])
             = Inr (stdev_val [1/5, 4/5], a)
         \<and> calculate_deviation rho_library 0 1 0 0 0 (Some ([''light'', ''heavy''] @ [''heavier'']))
             = Inr (stdev_val ([1/5, 4/5] @ [9/10]), a')
         \<and> (stdev_val [1/5, 4/5] \<le> stdev_val ([1/5, 4/5] @ [9/10])
              \<longleftrightarrow> (real (length [1/5, 4/5 :: real]) + 1) * sq_dev [1/5, 4/5]
                    \<le> real (length [1/5, 4/5 :: real]) * (real (length [1/5, 4/5 :: real]) - 1)
                       * (9/10 - mean_val [1/5, 4/5])\<^sup>2)"
proof -
  let ?heavier = "mk_lens ''heavier'' [] (default_parameters\<lparr>rho_weight := 36\<rparr>)"
  have 1: "collect_interpretations rho_library 0 1 0 0 0 [''light'', ''heavy''] ([], [])
           = Inr (fst (projr (collect_interpretations rho_library 0 1 0 0 0
                                [''light'', ''heavy''] ([], []))), [1/5, 4/5])"
    by (simp add: rho_library_def lens_eval)
  have 2: "2 \<le> length [1/5, 4/5 :: real]" by simp
  have 3: "get_lens rho_library ''heavier'' = Some ?heavier"
    by (simp add: rho_library_def get_lens_def)
  have 4: "lens_interpret ?heavier 0 1 0 0 0
           = Inr (projr (lens_interpret ?heavier 0 1 0 0 0))"
    by (simp add: lens_eval)
  have 5: "coherence (projr (lens_interpret ?heavier 0 1 0 0 0)) = 9/10"
    by (simp add: lens_eval)
  from deviation_after_adding_lens [OF 1 2 3 4] show ?thesis
    unfolding 5 .
qed

text \<open>
  Claim C4 as stated fails. For the tuple \<open>(0, 1, 0, 0, 0)\<close> the lenses \<open>light\<close> and
  \<open>heavy\<close> give the coherences \<open>1/5\<close> and \<open>4/5\<close>; the lens \<open>heavier\<close> gives \<open>9/10\<close>,
  strictly above the range, and adding it lowers the deviation from \<open>sqrt (9/50)\<close> to
  \<open>sqrt (43/300)\<close>.
\<close>

theorem deviation_decreases_outside_range:
  "map_sum id fst (calculate_deviation rho_library 0 1 0 0 0 (Some [''light'', ''heavy'']))
     = Inr (sqrt (9/50))
   \<and> map_sum id (coherence_range \<circ> snd)
       (calculate_deviation rho_library 0 1 0 0 0 (Some [''light'', ''heavy''])) = Inr (1/5, 4/5)
   \<and> map_sum id coherence
       (lens_interpret (mk_lens ''heavier'' [] (default_parameters\<lparr>rho_weight := 36\<rparr>)) 0 1 0 0 0)
     = Inr (9/10)
   \<and> 4/5 < (9/10 :: real)
   \<and> map_sum id fst
       (calculate_deviation rho_library 0 1 0 0 0 (Some [''light'', ''heavy'', ''heavier'']))
     = Inr (sqrt (43/300))
   \<and> sqrt (43/300) < sqrt (9/50)"
  by (simp add: calculate_deviation_def rho_library_def lens_eval py_stdev_def py_mean_def
        stdev_val_def sq_dev_def mean_val_def power2_eq_square concern_counts_def Let_def)







section \<open>Properties of the systemic-flag detection\<close>

lemma fold_add_to_group:
  assumes "distinct (map fst acc)"
  shows "distinct (map fst (fold add_to_group injuries acc))
         \<and> map_of (fold add_to_group injuries acc) g
             = (if filter (\<lambda>i. position_group i = g) injuries = [] then map_of acc g
                else Some ((case map_of acc g of None \<Rightarrow> [] | Some l \<Rightarrow> l)
                           @ filter (\<lambda>i. position_group i = g) injuries))"
  using assms
proof (induction injuries arbitrary: acc)
  case Nil
  then show ?case by simp
next
  case (Cons x xs)
  have d: "distinct (map fst (add_to_group x acc))"
    using Cons.prems by (simp add: add_to_group_def distinct_update)
  have m: "map_of (add_to_group x acc) g
           = (if position_group x = g
              then Some ((case map_of acc g of None \<Rightarrow> [] | Some l \<Rightarrow> l) @ [x])
              else map_of acc g)"
    by (auto simp: add_to_group_def update_conv')
  from Cons.IH [OF d] show ?case
    by (simp add: m)
qed

lemma position_groups_member:
  "(g, l) \<in> set (position_groups injuries)
   \<longleftrightarrow> l \<noteq> [] \<and> l = filter (\<lambda>i. position_group i = g) injuries"
proof -
  have d: "distinct (map fst (position_groups injuries))"
    and m: "map_of (position_groups injuries) g
          = (if filter (\<lambda>i. position_group i = g) injuries = [] then None
             else Some (filter (\<lambda>i. position_group i = g) injuries))"
    using fold_add_to_group [of "[]" injuries g] by (simp_all add: position_groups_def)
  have "(g, l) \<in> set (position_groups injuries) \<longleftrightarrow> map_of (position_groups injuries) g = Some l"
    using d by simp
  then show ?thesis unfolding m by auto
qed

lemma soft_tissue_flags_positional:
  "fl \<in> set (soft_tissue_flags now g' l)
   \<Longrightarrow> flag_id fl = ''SYS-SOFT-'' @ py_upper g' \<and> pattern_type fl = POSITIONAL
       \<and> affected_positions fl = [g']"
  by (auto simp: soft_tissue_flags_def Let_def split: if_splits)

lemma soft_tissue_flags_nonempty_iff:
  "soft_tissue_flags now g l \<noteq> []
   \<longleftrightarrow> 3 \<le> length (filter (\<lambda>i. injury_type i = ''soft_tissue'') l)
       \<and> real (length (filter (\<lambda>i. injury_type i = ''soft_tissue'') l)) / real (length l) > 0.5"
  by (simp add: soft_tissue_flags_def Let_def)

lemma disclosure_flags_systemic:
  "fl \<in> set (disclosure_flags now recovery) \<Longrightarrow> pattern_type fl = SYSTEMIC"
  by (auto simp: disclosure_flags_def Let_def split: if_splits)

text \<open>
  Claim C5. For every injury list and every position group, the flag list of
  \<open>_detect_systemic_flags\<close> contains a positional flag for the group (with the id
  \<open>SYS-SOFT-\<close> followed by the upper-cased group) exactly when the group has at least three soft-tissue injuries and they are strictly more than half of
  the group's injuries. (For a group that does not occur both sides are false.)
\<close>

theorem soft_tissue_flag_iff:
  "(\<exists>fl \<in> set (detect_systemic_flags now injuries training recovery).
      flag_id fl = ''SYS-SOFT-'' @ py_upper g \<and> pattern_type fl = POSITIONAL
      \<and> affected_positions fl = [g])
   \<longleftrightarrow> 3 \<le> length (filter (\<lambda>i. position_group i = g \<and> injury_type i = ''soft_tissue'') injuries)
       \<and> real (length (filter (\<lambda>i. position_group i = g \<and> injury_type i = ''soft_tissue'') injuries))
           / real (length (filter (\<lambda>i. position_group i = g) injuries)) > 1 / 2"
  (is "?L \<longleftrightarrow> ?R")
proof -
  let ?grp = "filter (\<lambda>i. position_group i = g) injuries"
  have st: "filter (\<lambda>i. injury_type i = ''soft_tissue'') ?grp
            = filter (\<lambda>i. position_group i = g \<and> injury_type i = ''soft_tissue'') injuries"
    by (simp add: conj_commute)
  have R: "?R \<longleftrightarrow> soft_tissue_flags now g ?grp \<noteq> []"
    unfolding soft_tissue_flags_nonempty_iff st by simp
  show ?thesis
  proof
    assume ?L
    then obtain fl where fl: "fl \<in> set (detect_systemic_flags now injuries training recovery)"
      "pattern_type fl = POSITIONAL" "affected_positions fl = [g]" by blast
    from fl(1,2) disclosure_flags_systemic [of fl now recovery]
    obtain g' l where gl: "(g', l) \<in> set (position_groups injuries)"
      "fl \<in> set (soft_tissue_flags now g' l)"
      by (auto simp: detect_systemic_flags_def)
    from soft_tissue_flags_positional [OF gl(2)] fl(3) have "g' = g" by simp
    with gl(1) have "l = ?grp" by (simp add: position_groups_member)
    with gl(2) \<open>g' = g\<close> have "soft_tissue_flags now g ?grp \<noteq> []" by auto
    with R show ?R by blast
  next
    assume ?R
    with R have ne: "soft_tissue_flags now g ?grp \<noteq> []" by blast
    then obtain fl where fl: "fl \<in> set (soft_tissue_flags now g ?grp)"
      by (cases "soft_tissue_flags now g ?grp") auto
    from ne have "?grp \<noteq> []"
      by (auto simp: soft_tissue_flags_def Let_def)
    then have "(g, ?grp) \<in> set (position_groups injuries)"
      by (simp add: position_groups_member)
    with fl have "fl \<in> set (detect_systemic_flags now injuries training recovery)"
      by (auto simp: detect_systemic_flags_def)
    with soft_tissue_flags_positional [OF fl] show ?L by blast
  qed
qed

text \<open>The scenario of the claim: five soft-tissue injuries out of six in \<open>secondary\<close>.\<close>

theorem soft_tissue_flag_iff_witness:
  "\<exists>fl \<in> set (detect_systemic_flags example_date secondary_injuries [] []).
      flag_id fl = ''SYS-SOFT-SECONDARY'' \<and> pattern_type fl = POSITIONAL
      \<and> affected_positions fl = [''secondary'']"
proof -
  have "py_upper ''secondary'' = ''SECONDARY''"
    by code_simp
  with soft_tissue_flag_iff [of example_date secondary_injuries "[]" "[]" "''secondary''"]
  show ?thesis
    by (simp add: secondary_injuries_def secondary_injury_def)
qed



section \<open>Ranges of the dimension values\<close>










lemma extract_q_bounds:
  "0.3 \<le> p_q (extract_pattern_regex text) \<and> p_q (extract_pattern_regex text) \<le> 1"
proof -
  define a where "a = real (count_matches activation_patterns (py_lower text))"
  define e where "e = real (count_list text (CHR ''!''))"
  have "0 \<le> a" "0 \<le> e" by (simp_all add: a_def e_def)
  moreover have "p_q (extract_pattern_regex text) = min (0.3 + a * 0.1 + e * 0.05) 1"
    by (simp add: extract_pattern_regex_def Let_def a_def e_def)
  ultimately show ?thesis by (simp add: min_def)
qed

lemma extract_rho_bounds:
  "0.3 \<le> p_rho (extract_pattern_regex text) \<and> p_rho (extract_pattern_regex text) \<le> 1"
proof -
  define w where "w = real (count_matches wisdom_patterns (py_lower text))"
  have "0 \<le> w" by (simp add: w_def)
  moreover have "p_rho (extract_pattern_regex text) = min (0.3 + w * 0.1) 1"
    by (simp add: extract_pattern_regex_def Let_def w_def)
  ultimately show ?thesis by (simp add: min_def)
qed

lemma extract_tau_bounds:
  "0.1 \<le> p_tau (extract_pattern_regex text) \<and> p_tau (extract_pattern_regex text) \<le> 1"
proof -
  define past where "past = count_matches past_patterns (py_lower text)"
  define present where "present = count_matches present_patterns (py_lower text)"
  have nn: "0 \<le> real past" "0 \<le> real present" by simp_all
  have "p_tau (extract_pattern_regex text)
        = (if past > present then min (0.5 + real past * 0.05) 1
           else if present > past then max (0.5 - real present * 0.05) 0.1 else 0.5)"
    by (simp add: extract_pattern_regex_def Let_def past_def present_def)
  with nn show ?thesis by (simp add: min_def max_def)
qed


lemma extract_psi_confidence:
  "p_psi (extract_pattern_regex text) = 0.7 \<and> p_confidence (extract_pattern_regex text) = 0.6"
  by (simp add: extract_pattern_regex_def Let_def)





text \<open>
  Claim C10. For every input string the regex extractor returns \<open>q \<ge> 0.3\<close>,
  \<open>rho \<ge> 0.3\<close>, \<open>tau \<ge> 0.1\<close>, \<open>psi = 0.7\<close> and confidence \<open>0.6\<close>.
\<close>

theorem regex_extractor_floors:
  "p_q (extract_pattern_regex text) \<ge> 0.3 \<and> p_rho (extract_pattern_regex text) \<ge> 0.3
   \<and> p_tau (extract_pattern_regex text) \<ge> 0.1 \<and> p_psi (extract_pattern_regex text) = 0.7
   \<and> p_confidence (extract_pattern_regex text) = 0.6"
  using extract_q_bounds [of "text"] extract_rho_bounds [of "text"] extract_tau_bounds [of "text"]
        extract_psi_confidence [of "text"]
  by simp

section \<open>The CISD scenario\<close>

lemma cisd_processing_matches:
  "concat (map (\<lambda>p. findall_words p (py_lower cisd_text)) PROCESSING_INDICATORS) = [''support'']"
  by code_simp

lemma cisd_performance_matches:
  "concat (map (\<lambda>p. findall_words p (py_lower cisd_text)) PERFORMANCE_INDICATORS) = [''fine'']"
  by code_simp

lemma cisd_environment:
  "map snd (filter (\<lambda>(p, concern). search_any p (py_lower cisd_text)) ENVIRONMENTAL_CONCERNS) = []"
  by code_simp

text \<open>
  Claim C9, as amended. On the text of the scenario \<open>analyze\<close> finds one processing
  indicator (\<open>support\<close>) and one performance indicator (\<open>fine\<close>; \<open>normally\<close> is not
  \<open>normal\<close> followed by a word boundary), so both ratios are \<open>1/2\<close>, and the list of
  environmental concerns is empty.
\<close>

theorem cisd_scenario_ratios:
  "processing_ratio (analyze cisd_text None None) = 1 / 2
   \<and> performance_ratio (analyze cisd_text None None) = 1 / 2
   \<and> environmental_concerns (analyze cisd_text None None) = []"
  by (simp add: analyze_def Let_def cisd_processing_matches cisd_performance_matches
        cisd_environment)

text \<open>Claim C9 as stated fails: the performance ratio is not strictly greater.\<close>

theorem cisd_performance_not_greater:
  "\<not> performance_ratio (analyze cisd_text None None)
       > processing_ratio (analyze cisd_text None None)"
  by (simp add: analyze_def Let_def cisd_processing_matches cisd_performance_matches)

end
